theory Spec2Isabelle
  imports Main
begin

section \<open>Python built-ins used by the sources\<close>

text \<open>
  Strings are lists of characters.  The three string operations the sources rely on are
  \<^verbatim>\<open>str.strip()\<close>, \<^verbatim>\<open>str.splitlines()\<close>, \<^verbatim>\<open>str.replace(old, new)\<close> and the
  conversion \<^verbatim>\<open>int(s)\<close>, which raises \<^verbatim>\<open>ValueError\<close> on a string that is not a decimal
  numeral.
\<close>

datatype exn =
    RuntimeError string
  | ValueError string
  | IndexError

definition py_whitespace :: "char \<Rightarrow> bool" where
  "py_whitespace c \<longleftrightarrow>
     (of_char c :: nat) \<in> {9, 10, 11, 12, 13, 28, 29, 30, 31, 32, 133, 160}"

definition strip :: "string \<Rightarrow> string" where
  "strip s = rev (dropWhile py_whitespace (rev (dropWhile py_whitespace s)))"

definition py_linebreak :: "char \<Rightarrow> bool" where
  "py_linebreak c \<longleftrightarrow> (of_char c :: nat) \<in> {10, 11, 12, 13, 28, 29, 30, 133}"

fun splitlines_from :: "string \<Rightarrow> string \<Rightarrow> string list" where
  "splitlines_from cur [] = (if cur = [] then [] else [cur])"
| "splitlines_from cur (c # cs) =
     (if py_linebreak c then
        (case cs of
           d # ds \<Rightarrow>
             (if (of_char c :: nat) = 13 \<and> (of_char d :: nat) = 10
              then cur # splitlines_from [] ds
              else cur # splitlines_from [] (d # ds))
         | [] \<Rightarrow> [cur])
      else splitlines_from (cur @ [c]) cs)"

definition splitlines :: "string \<Rightarrow> string list" where
  "splitlines s = splitlines_from [] s"

function replace :: "string \<Rightarrow> string \<Rightarrow> string \<Rightarrow> string" where
  "replace old new s =
     (if old = [] then
        (case s of [] \<Rightarrow> new | c # cs \<Rightarrow> new @ c # replace old new cs)
      else if s = [] then []
      else if take (length old) s = old then new @ replace old new (drop (length old) s)
      else hd s # replace old new (tl s))"
  by pat_completeness auto
termination
  by (relation "measure (\<lambda>(old, new, s). length s)") auto

declare replace.simps [simp del]

definition is_digit :: "char \<Rightarrow> bool" where
  "is_digit c \<longleftrightarrow> 48 \<le> (of_char c :: nat) \<and> (of_char c :: nat) \<le> 57"

definition digit_val :: "char \<Rightarrow> int" where
  "digit_val c = int (of_char c) - 48"

text \<open>
  The digits of a decimal numeral; a single underscore is accepted between two digits.
  The flag says whether the previous character was a digit.
\<close>

fun parse_digits :: "int \<Rightarrow> bool \<Rightarrow> string \<Rightarrow> int option" where
  "parse_digits acc prev [] = (if prev then Some acc else None)"
| "parse_digits acc prev (c # cs) =
     (if is_digit c then parse_digits (acc * 10 + digit_val c) True cs
      else if c = CHR ''_'' \<and> prev then parse_digits acc False cs
      else None)"

definition py_int :: "string \<Rightarrow> exn + int" where
  "py_int s =
     (let r = (case strip s of
                 [] \<Rightarrow> None
               | c # cs \<Rightarrow>
                   if c = CHR ''+'' then parse_digits 0 False cs
                   else if c = CHR ''-'' then map_option uminus (parse_digits 0 False cs)
                   else parse_digits 0 False (c # cs))
      in case r of None \<Rightarrow> Inl (ValueError s) | Some n \<Rightarrow> Inr n)"

section \<open>Process runner and branch inspector (git\_utils.py)\<close>

text \<open>
  What \<^verbatim>\<open>subprocess.run\<close> does is outside the program: it is a parameter of the model, a
  function from the command, the working directory, the timeout in seconds and the state
  of the outside world (repositories, network) to an outcome and the next state of the
  world.  The outcome is either a completed process with its return code and its captured
  output, or one of the exceptions \<^verbatim>\<open>run_git\<close> distinguishes.
\<close>

datatype proc_outcome =
    Completed int string string
  | TimeoutExpired
  | FileNotFoundError
  | OtherException string

type_synonym 'w subprocess = "string list \<Rightarrow> string \<Rightarrow> nat \<Rightarrow> 'w \<Rightarrow> proc_outcome \<times> 'w"

type_synonym git_result = "int \<times> string \<times> string"

text \<open>
  \<^verbatim>\<open>run_git(cmd, cwd)\<close>, lines 13--30.  \<^verbatim>\<open>subprocess.run\<close> on an empty argument list raises
  \<^verbatim>\<open>IndexError\<close> before any process is started, so the handler that reads \<^verbatim>\<open>cmd[0]\<close> is
  only entered with a non-empty command; the \<^verbatim>\<open>IndexError\<close> is caught by the last handler.
\<close>

definition run_git :: "'w subprocess \<Rightarrow> string list \<Rightarrow> string \<Rightarrow> 'w \<Rightarrow> git_result \<times> 'w" where
  "run_git sp cmd cwd w =
     (case cmd of
        [] \<Rightarrow> ((1, [], ''list index out of range''), w)
      | c # _ \<Rightarrow>
          (case sp cmd cwd 30 w of
             (Completed rc out err, w') \<Rightarrow> ((rc, strip out, strip err), w')
           | (TimeoutExpired, w') \<Rightarrow> ((1, [], ''Timeout''), w')
           | (FileNotFoundError, w') \<Rightarrow> ((1, [], ''Command not found: '' @ c), w')
           | (OtherException m, w') \<Rightarrow> ((1, [], m), w')))"

definition commits_ahead ::
  "'w subprocess \<Rightarrow> string \<Rightarrow> string \<Rightarrow> string \<Rightarrow> string \<Rightarrow> 'w \<Rightarrow> (exn + int) \<times> 'w" where
  "commits_ahead sp base tip cwd git w =
     (case run_git sp [git, ''rev-list'', ''--count'', base @ ''..'' @ tip] cwd w of
        ((code, out, err), w') \<Rightarrow>
          if code \<noteq> 0 then (Inl (RuntimeError err), w') else (py_int out, w'))"

definition commits_behind ::
  "'w subprocess \<Rightarrow> string \<Rightarrow> string \<Rightarrow> string \<Rightarrow> string \<Rightarrow> 'w \<Rightarrow> (exn + int) \<times> 'w" where
  "commits_behind sp base tip cwd git w =
     (case run_git sp [git, ''rev-list'', ''--count'', tip @ ''..'' @ base] cwd w of
        ((code, out, err), w') \<Rightarrow>
          if code \<noteq> 0 then (Inr 0, w') else (py_int out, w'))"

definition get_tracked_branches ::
  "'w subprocess \<Rightarrow> string \<Rightarrow> string \<Rightarrow> string \<Rightarrow> string \<Rightarrow> 'w \<Rightarrow> (exn + string list) \<times> 'w" where
  "get_tracked_branches sp remote prefix cwd git w =
     (case run_git sp [git, ''for-each-ref'', ''--format=%(refname:short)'',
                       ''refs/remotes/'' @ remote @ ''/'' @ prefix] cwd w of
        ((code, out, err), w') \<Rightarrow>
          if code \<noteq> 0 then (Inl (RuntimeError err), w')
          else (Inr (if out \<noteq> [] then splitlines out else []), w'))"

definition get_changed_files ::
  "'w subprocess \<Rightarrow> string \<Rightarrow> string \<Rightarrow> string \<Rightarrow> string \<Rightarrow> 'w \<Rightarrow> string set \<times> 'w" where
  "get_changed_files sp base tip cwd git w =
     (case run_git sp [git, ''diff'', ''--name-only'', base @ ''...'' @ tip] cwd w of
        ((code, out, err), w') \<Rightarrow>
          if code \<noteq> 0 then ({}, w')
          else ((if out \<noteq> [] then set (splitlines out) else {}), w'))"

text \<open>\<^verbatim>\<open>are_files_disjoint\<close>, lines 69--80: the first loop collects the changed files of
  every branch, the nested iteration compares every pair of positions \<open>i < j\<close>.\<close>

fun collect_changed_files ::
  "'w subprocess \<Rightarrow> string list \<Rightarrow> string \<Rightarrow> string \<Rightarrow> string \<Rightarrow> string \<Rightarrow> 'w
     \<Rightarrow> string set list \<times> 'w" where
  "collect_changed_files sp [] main_ref remote cwd git w = ([], w)"
| "collect_changed_files sp (branch # rest) main_ref remote cwd git w =
     (case get_changed_files sp main_ref (remote @ ''/'' @ branch) cwd git w of
        (files, w1) \<Rightarrow>
          (case collect_changed_files sp rest main_ref remote cwd git w1 of
             (all_files, w2) \<Rightarrow> (files # all_files, w2)))"

fun disjoint_from_rest :: "'a set \<Rightarrow> 'a set list \<Rightarrow> bool" where
  "disjoint_from_rest f [] = True"
| "disjoint_from_rest f (g # gs) = (if f \<inter> g \<noteq> {} then False else disjoint_from_rest f gs)"

fun pairwise_disjoint :: "'a set list \<Rightarrow> bool" where
  "pairwise_disjoint [] = True"
| "pairwise_disjoint (f # fs) =
     (if \<not> disjoint_from_rest f fs then False else pairwise_disjoint fs)"

definition are_files_disjoint ::
  "'w subprocess \<Rightarrow> string list \<Rightarrow> string \<Rightarrow> string \<Rightarrow> string \<Rightarrow> string \<Rightarrow> 'w \<Rightarrow> bool \<times> 'w" where
  "are_files_disjoint sp branches main_ref remote cwd git w =
     (case collect_changed_files sp branches main_ref remote cwd git w of
        (all_files, w') \<Rightarrow> (pairwise_disjoint all_files, w'))"

definition local_main_ahead ::
  "'w subprocess \<Rightarrow> string \<Rightarrow> string \<Rightarrow> string \<Rightarrow> string \<Rightarrow> 'w \<Rightarrow> int \<times> 'w" where
  "local_main_ahead sp remote main cwd git w =
     (case commits_ahead sp (remote @ ''/'' @ main) main cwd git w of
        (Inr n, w') \<Rightarrow> (n, w')
      | (Inl e, w') \<Rightarrow> (0, w'))"

definition check_git_health ::
  "'w subprocess \<Rightarrow> string \<Rightarrow> string \<Rightarrow> string \<Rightarrow> string \<Rightarrow> 'w \<Rightarrow> (bool \<times> string) \<times> 'w" where
  "check_git_health sp repo_path remote main_branch git w =
     (case run_git sp [git, ''rev-parse'', ''--git-dir''] repo_path w of
        ((code1, out1, err1), w1) \<Rightarrow>
          if code1 \<noteq> 0 then ((False, ''Not a Git repository: '' @ err1), w1)
          else
            (case run_git sp [git, ''remote''] repo_path w1 of
               ((code2, out2, err2), w2) \<Rightarrow>
                 if code2 \<noteq> 0 then ((False, ''Git remote error: '' @ err2), w2)
                 else if remote \<notin> set (splitlines out2)
                 then ((False, ''Remote '' @ [CHR 0x27] @ remote @ [CHR 0x27] @ '' not found''), w2)
                 else
                   (case run_git sp [git, ''fetch'', remote, ''--dry-run''] repo_path w2 of
                      ((code3, out3, err3), w3) \<Rightarrow>
                        if code3 \<noteq> 0 then ((False, ''Fetch failed: '' @ err3), w3)
                        else ((True, []), w3))))"

section \<open>The repository session (repo\_tab)\<close>

text \<open>
  The texts written to the state label and to the information label are the session's
  observable state.  Each constructor stands for one text of the sources:
  \<^verbatim>\<open>Sync...\<close>, \<^verbatim>\<open>ERROR\<close>, \<^verbatim>\<open>Sync OK\<close>, \<^verbatim>\<open>Idle\<close>, \<^verbatim>\<open>STOP - Merge possible\<close>,
  \<^verbatim>\<open>STOP - Human action required\<close>, \<^verbatim>\<open>STOP - Push failed\<close>, \<^verbatim>\<open>Merging...\<close>,
  \<^verbatim>\<open>ERROR - Merge failed\<close>, \<^verbatim>\<open>Merge OK\<close>; \<open>Label_other\<close> is any other text (the
  label before the first cycle, the texts of the initial scan).
\<close>

datatype state_text =
    Label_Sync
  | Label_ERROR
  | Label_Sync_OK
  | Label_Idle
  | Label_STOP_Merge_possible
  | Label_STOP_Human_action_required
  | Label_STOP_Push_failed
  | Label_Merging
  | Label_ERROR_Merge_failed
  | Label_Merge_OK
  | Label_other string

datatype stop_msg =
    Diverged_branches "(string \<times> int \<times> int) list"
  | Multiple_branches "string list"

datatype info_text =
    Info_Pushed_local_commits int
  | Info_branches_synchronized nat
  | Info_All_branches_are_synchronized
  | Info_Disjoint_files stop_msg
  | Info_Potential_file_conflict stop_msg
  | Info_Pull_failed string
  | Info_Push_to_failed string
  | Info_Pull_from_push_to_others string int
  | Info_Merge_of_failed string
  | Info_Merged_branches nat
  | Info_other string

text \<open>
  Modelled from the spec: config.py is missing.  The global settings are an external
  key-value source that is read fresh and written back whole; of its keys the core uses
  \<^verbatim>\<open>branch_update_enabled\<close> (repository path to branch name to flag) and
  \<^verbatim>\<open>sync_new_branches_by_default\<close>.  The two dictionaries are association lists, read
  with \<open>map_of\<close>.
\<close>

record settings =
  branch_update_enabled :: "(string \<times> (string \<times> bool) list) list"
  sync_new_branches_by_default :: bool

text \<open>
  The fields of \<^verbatim>\<open>RepoTabContent\<close> that the synchronisation and polling mixins read and
  write, the persisted settings file, and the state of the world outside the program.
  \<open>lock\<close> is true while the session's \<^verbatim>\<open>threading.Lock\<close> is held, \<open>stop_event\<close> while
  the event is set, and \<open>new_commit_alerts\<close> counts the sound and desktop
  notifications sent.

  Modelled from the spec: ui.py is missing.  \<^verbatim>\<open>show_merge_button\<close> and
  \<^verbatim>\<open>hide_merge_button\<close> make the merge action available to the operator or withdraw
  it: \<open>merge_button\<close> is true while it is available.  The log lines of \<^verbatim>\<open>log_msg\<close>
  belong to the presentation layer; they change none of the fields below and are left
  out.
\<close>

record 'w repo_tab =
  repo_path :: string
  git :: string
  remote :: string
  main :: string
  prefix :: string
  lock :: bool
  polling :: bool
  stop_event :: bool
  last_commit_count :: "string \<rightharpoonup> int"
  pending_branches :: "string list"
  git_healthy :: bool
  git_error :: string
  syncing :: bool
  state_label :: state_text
  info_label :: info_text
  merge_button :: bool
  new_commit_alerts :: nat
  settings_file :: settings
  world :: "'w"

text \<open>Running one of the functions of git\_utils.py in the world of the session.\<close>

definition in_world :: "('w \<Rightarrow> 'a \<times> 'w) \<Rightarrow> 'w repo_tab \<Rightarrow> 'a \<times> 'w repo_tab" where
  "in_world f s = (case f (world s) of (r, w') \<Rightarrow> (r, s\<lparr>world := w'\<rparr>))"

text \<open>
  \<^verbatim>\<open>self.after(0, callback)\<close> asks the toolkit to run a callback on the main thread.  The
  callbacks only repaint; the call itself is made on the worker thread and either returns
  or raises there (the toolkit refuses it when the main loop is not running), which is
  for the world outside the program to decide.  The entry point \<^verbatim>\<open>sync\<close> makes these
  calls between its body and the release of the lock, and there they are part of the
  model.
\<close>

type_synonym 'w tk_after = "'w \<Rightarrow> exn option \<times> 'w"

text \<open>Modelled from the spec: config.py is missing.  Loading returns the persisted
  settings as they are, saving replaces them.\<close>

definition load_global_settings :: "'w repo_tab \<Rightarrow> settings" where
  "load_global_settings s = settings_file s"

definition save_global_settings :: "settings \<Rightarrow> 'w repo_tab \<Rightarrow> 'w repo_tab" where
  "save_global_settings st s = s\<lparr>settings_file := st\<rparr>"

subsection \<open>polling.py\<close>

text \<open>\<^verbatim>\<open>stop_polling\<close>, lines 172--177: clears the polling flag and the countdown; it does
  not touch the stop event.\<close>

definition stop_polling :: "'w repo_tab \<Rightarrow> 'w repo_tab" where
  "stop_polling s = s\<lparr>polling := False\<rparr>"

text \<open>\<^verbatim>\<open>check_and_update_health\<close>, lines 21--32.\<close>

definition check_and_update_health :: "'w subprocess \<Rightarrow> 'w repo_tab \<Rightarrow> bool \<times> 'w repo_tab" where
  "check_and_update_health sp s =
     (case in_world (check_git_health sp (repo_path s) (remote s) (main s) (git s)) s of
        ((ok, err), s1) \<Rightarrow> (ok, s1\<lparr>git_healthy := ok, git_error := err\<rparr>))"

subsection \<open>sync.py\<close>

text \<open>The short name of a remote branch: \<^verbatim>\<open>b.replace(f"{self.remote}/", "")\<close>.\<close>

definition short_name :: "'w repo_tab \<Rightarrow> string \<Rightarrow> string" where
  "short_name s b = replace (remote s @ ''/'') [] b"

text \<open>The persisted flags of a repository, lines 67 and 239:
  \<^verbatim>\<open>settings.get("branch_update_enabled", {}).get(str(self.repo_path), {})\<close>.\<close>

definition branch_states :: "settings \<Rightarrow> string \<Rightarrow> (string \<times> bool) list" where
  "branch_states st path =
     (case map_of (branch_update_enabled st) path of None \<Rightarrow> [] | Some m \<Rightarrow> m)"

text \<open>\<^verbatim>\<open>branch_states.get(name, default_enabled)\<close>, lines 68, 73 and 240, 245.\<close>

definition branch_enabled :: "settings \<Rightarrow> string \<Rightarrow> string \<Rightarrow> bool" where
  "branch_enabled st path name =
     (case map_of (branch_states st path) name of
        None \<Rightarrow> sync_new_branches_by_default st
      | Some v \<Rightarrow> v)"

text \<open>\<^verbatim>\<open>push_main_and_branches\<close>, lines 222--260.  The loop of lines 242--258 stops at the
  first push that fails.\<close>

fun push_branches :: "'w subprocess \<Rightarrow> settings \<Rightarrow> string list \<Rightarrow> 'w repo_tab \<Rightarrow> bool \<times> 'w repo_tab" where
  "push_branches sp st [] s = (True, s)"
| "push_branches sp st (b # bs) s =
     (let target = short_name s b in
      if \<not> branch_enabled st (repo_path s) target then push_branches sp st bs s
      else
        (case in_world (run_git sp [git s, ''push'', remote s, main s @ '':'' @ target]
                          (repo_path s)) s of
           ((code, out, err), s1) \<Rightarrow>
             if code \<noteq> 0 then
               (False, stop_polling (s1\<lparr>state_label := Label_STOP_Push_failed,
                                        info_label := Info_Push_to_failed target\<rparr>))
             else push_branches sp st bs s1))"

definition push_main_and_branches ::
  "'w subprocess \<Rightarrow> 'w repo_tab \<Rightarrow> (exn + bool) \<times> 'w repo_tab" where
  "push_main_and_branches sp s =
     (case in_world (run_git sp [git s, ''push'', remote s, main s] (repo_path s)) s of
        ((code, out, err), s1) \<Rightarrow>
          if code \<noteq> 0 then (Inr False, stop_polling (s1\<lparr>state_label := Label_ERROR\<rparr>))
          else
            (case in_world (get_tracked_branches sp (remote s1) (prefix s1) (repo_path s1) (git s1)) s1 of
               (Inl e, s2) \<Rightarrow> (Inl e, s2)
             | (Inr all_branches, s2) \<Rightarrow>
                 (case push_branches sp (load_global_settings s2) all_branches s2 of
                    (ok, s3) \<Rightarrow> (Inr ok, s3))))"

text \<open>
  \<^verbatim>\<open>_do_sync\<close>, lines 38--220, in two halves.  The first half (lines 40--130) fetches,
  handles a local main that is ahead, lists and filters the tracked branches, prunes the
  persisted map and classifies the enabled branches; the second half (lines 132--220) is
  the decision on the classified branches.
\<close>

text \<open>Lines 78--89: entries of the persisted map for names that are not short names of
  a listed branch are deleted; the settings are saved only when an entry was deleted.\<close>

definition prune_branch_states :: "settings \<Rightarrow> string list \<Rightarrow> 'w repo_tab \<Rightarrow> 'w repo_tab" where
  "prune_branch_states st all_branches s =
     (let existing_short_names = set (map (short_name s) all_branches) in
      case map_of (branch_update_enabled st) (repo_path s) of
        None \<Rightarrow> s
      | Some saved \<Rightarrow>
          if list_ex (\<lambda>saved_branch. saved_branch \<notin> existing_short_names) (map fst saved)
          then save_global_settings
                 (st\<lparr>branch_update_enabled :=
                       map (\<lambda>(path, states).
                              if path = repo_path s
                              then (path, filter (\<lambda>(name, v). name \<in> existing_short_names) states)
                              else (path, states))
                           (branch_update_enabled st)\<rparr>) s
          else s)"

text \<open>Lines 96--119: the classification loop.  A failing ahead count, or an output that
  is not a number, raises out of the loop; the counts recorded so far stay recorded.\<close>

fun classify ::
  "'w subprocess \<Rightarrow> string list \<Rightarrow> (string \<times> int) list \<Rightarrow> (string \<times> int \<times> int) list \<Rightarrow> bool
     \<Rightarrow> 'w repo_tab
     \<Rightarrow> (exn + (string \<times> int) list \<times> (string \<times> int \<times> int) list \<times> bool) \<times> 'w repo_tab" where
  "classify sp [] ahead_branches diverged_branches new_commits_detected s =
     (Inr (ahead_branches, diverged_branches, new_commits_detected), s)"
| "classify sp (b # bs) ahead_branches diverged_branches new_commits_detected s =
     (case in_world (commits_ahead sp (remote s @ ''/'' @ main s) b (repo_path s) (git s)) s of
        (Inl e, s1) \<Rightarrow> (Inl e, s1)
      | (Inr ahead, s1) \<Rightarrow>
          (case in_world (commits_behind sp (remote s1 @ ''/'' @ main s1) b (repo_path s1) (git s1)) s1 of
             (Inl e, s2) \<Rightarrow> (Inl e, s2)
           | (Inr behind, s2) \<Rightarrow>
               if ahead > 0 then
                 (let name = short_name s2 b;
                      prev = (case last_commit_count s2 name of None \<Rightarrow> 0 | Some c \<Rightarrow> c);
                      s3 = s2\<lparr>last_commit_count := (last_commit_count s2)(name \<mapsto> ahead)\<rparr>
                  in if behind > 0
                     then classify sp bs ahead_branches
                            (diverged_branches @ [(name, ahead, behind)])
                            (new_commits_detected \<or> ahead > prev) s3
                     else classify sp bs (ahead_branches @ [(name, ahead)])
                            diverged_branches
                            (new_commits_detected \<or> ahead > prev) s3)
               else classify sp bs ahead_branches diverged_branches new_commits_detected s2))"

datatype scan_result =
    Returned
  | Classified "string list" "(string \<times> int) list" "(string \<times> int \<times> int) list"

definition do_sync_scan :: "'w subprocess \<Rightarrow> 'w repo_tab \<Rightarrow> (exn + scan_result) \<times> 'w repo_tab" where
  "do_sync_scan sp s0 =
     (let s = s0\<lparr>state_label := Label_Sync, merge_button := False, pending_branches := []\<rparr> in
      case in_world (run_git sp [git s, ''fetch'', remote s] (repo_path s)) s of
        ((code, out, err), s1) \<Rightarrow>
          if code \<noteq> 0 then (Inr Returned, stop_polling (s1\<lparr>state_label := Label_ERROR\<rparr>))
          else
            (case in_world (local_main_ahead sp (remote s1) (main s1) (repo_path s1) (git s1)) s1 of
               (local_ahead, s2) \<Rightarrow>
                 if local_ahead > 0 then
                   (case push_main_and_branches sp s2 of
                      (Inl e, s3) \<Rightarrow> (Inl e, s3)
                    | (Inr True, s3) \<Rightarrow>
                        (Inr Returned, s3\<lparr>state_label := Label_Sync_OK,
                                           info_label := Info_Pushed_local_commits local_ahead\<rparr>)
                    | (Inr False, s3) \<Rightarrow> (Inr Returned, s3))
                 else
                   (case in_world (get_tracked_branches sp (remote s2) (prefix s2) (repo_path s2) (git s2)) s2 of
                      (Inl e, s3) \<Rightarrow> (Inl e, s3)
                    | (Inr all_branches, s3) \<Rightarrow>
                        (let settings = load_global_settings s3;
                             branches = filter (\<lambda>b. branch_enabled settings (repo_path s3) (short_name s3 b))
                                          all_branches;
                             s4 = prune_branch_states settings all_branches s3
                         in case classify sp branches [] [] False s4 of
                              (Inl e, s5) \<Rightarrow> (Inl e, s5)
                            | (Inr (ahead_branches, diverged_branches, new_commits_detected), s5) \<Rightarrow>
                                (Inr (Classified branches ahead_branches diverged_branches),
                                 (if new_commits_detected
                                  then s5\<lparr>new_commit_alerts := Suc (new_commit_alerts s5)\<rparr>
                                  else s5))))))"

text \<open>Lines 135--142: the branches that are behind.\<close>

fun behind_scan ::
  "'w subprocess \<Rightarrow> string list \<Rightarrow> (string \<times> int) list \<Rightarrow> 'w repo_tab
     \<Rightarrow> (exn + (string \<times> int) list) \<times> 'w repo_tab" where
  "behind_scan sp [] behind_branches s = (Inr behind_branches, s)"
| "behind_scan sp (b # bs) behind_branches s =
     (case in_world (commits_behind sp (remote s @ ''/'' @ main s) b (repo_path s) (git s)) s of
        (Inl e, s1) \<Rightarrow> (Inl e, s1)
      | (Inr behind, s1) \<Rightarrow>
          if behind > 0 then behind_scan sp bs (behind_branches @ [(short_name s1 b, behind)]) s1
          else behind_scan sp bs behind_branches s1)"

text \<open>Lines 146--158: main is pushed onto each branch that is behind; the first failure
  ends the cycle.\<close>

fun push_behind :: "'w subprocess \<Rightarrow> (string \<times> int) list \<Rightarrow> 'w repo_tab \<Rightarrow> bool \<times> 'w repo_tab" where
  "push_behind sp [] s = (True, s)"
| "push_behind sp ((branch_name, n) # rest) s =
     (case in_world (run_git sp [git s, ''push'', remote s, main s @ '':'' @ branch_name]
                       (repo_path s)) s of
        ((code, out, err), s1) \<Rightarrow>
          if code \<noteq> 0 then (False, stop_polling (s1\<lparr>state_label := Label_ERROR\<rparr>))
          else push_behind sp rest s1)"

definition do_sync_decide ::
  "'w subprocess \<Rightarrow> string list \<Rightarrow> (string \<times> int) list \<Rightarrow> (string \<times> int \<times> int) list
     \<Rightarrow> 'w repo_tab \<Rightarrow> (exn + unit) \<times> 'w repo_tab" where
  "do_sync_decide sp branches ahead_branches diverged_branches s =
     (if length ahead_branches + length diverged_branches = 0 then
        (case behind_scan sp branches [] s of
           (Inl e, s1) \<Rightarrow> (Inl e, s1)
         | (Inr behind_branches, s1) \<Rightarrow>
             if behind_branches \<noteq> [] then
               (case push_behind sp behind_branches s1 of
                  (False, s2) \<Rightarrow> (Inr (), s2)
                | (True, s2) \<Rightarrow>
                    (Inr (), s2\<lparr>state_label := Label_Sync_OK,
                                info_label := Info_branches_synchronized (length behind_branches)\<rparr>))
             else
               (Inr (), s1\<lparr>state_label := Label_Idle,
                           info_label := Info_All_branches_are_synchronized,
                           last_commit_count := Map.empty\<rparr>))
      else if length diverged_branches > 0 \<or> length ahead_branches > 1 then
        (let all_names = map fst diverged_branches @ map fst ahead_branches;
             s1 = s\<lparr>pending_branches := all_names\<rparr>
         in case in_world (are_files_disjoint sp all_names (remote s1 @ ''/'' @ main s1) (remote s1)
                             (repo_path s1) (git s1)) s1 of
              (disjoint, s2) \<Rightarrow>
                (let msg = (if length diverged_branches > 0
                            then Diverged_branches diverged_branches
                            else Multiple_branches all_names)
                 in if disjoint then
                      (Inr (), stop_polling (s2\<lparr>state_label := Label_STOP_Merge_possible,
                                               info_label := Info_Disjoint_files msg,
                                               merge_button := True\<rparr>))
                    else
                      (Inr (), stop_polling (s2\<lparr>state_label := Label_STOP_Human_action_required,
                                               info_label := Info_Potential_file_conflict msg\<rparr>))))
      else
        (case ahead_branches of
           [] \<Rightarrow> (Inl IndexError, s)
         | (leader, n) # rest \<Rightarrow>
             (case in_world (run_git sp [git s, ''pull'', ''--ff-only'', remote s, leader]
                               (repo_path s)) s of
                ((code, out, err), s1) \<Rightarrow>
                  if code \<noteq> 0 then
                    (Inr (), stop_polling (s1\<lparr>state_label := Label_ERROR,
                                             info_label := Info_Pull_failed (take 100 err)\<rparr>))
                  else
                    (case push_main_and_branches sp s1 of
                       (Inl e, s2) \<Rightarrow> (Inl e, s2)
                     | (Inr False, s2) \<Rightarrow> (Inr (), s2)
                     | (Inr True, s2) \<Rightarrow>
                         (let s3 = s2\<lparr>last_commit_count := (last_commit_count s2)(leader \<mapsto> 0),
                                      state_label := Label_Sync_OK\<rparr>
                          in case in_world (get_tracked_branches sp (remote s3) (prefix s3)
                                              (repo_path s3) (git s3)) s3 of
                               (Inl e, s4) \<Rightarrow> (Inl e, s4)
                             | (Inr branches', s4) \<Rightarrow>
                                 (Inr (), s4\<lparr>info_label :=
                                     Info_Pull_from_push_to_others leader (int (length branches') - 1)\<rparr>))))))"

definition do_sync :: "'w subprocess \<Rightarrow> 'w repo_tab \<Rightarrow> (exn + unit) \<times> 'w repo_tab" where
  "do_sync sp s =
     (case do_sync_scan sp s of
        (Inl e, s1) \<Rightarrow> (Inl e, s1)
      | (Inr Returned, s1) \<Rightarrow> (Inr (), s1)
      | (Inr (Classified branches ahead_branches diverged_branches), s1) \<Rightarrow>
          do_sync_decide sp branches ahead_branches diverged_branches s1)"

text \<open>
  \<^verbatim>\<open>sync\<close>, lines 21--36: the non-blocking acquisition, the body, and the
  \<^verbatim>\<open>finally\<close> block, which runs whether the body returns or raises.  The block
  (lines 31--36) clears the indicator, makes two \<^verbatim>\<open>self.after\<close> calls and then releases
  the lock; an exception of one of the calls leaves the block at once and replaces the
  result of the body.  The \<^verbatim>\<open>self.after\<close> call of line 28 stands before the body, inside
  the \<^verbatim>\<open>try\<close>.
\<close>

definition sync_finally ::
  "'w tk_after \<Rightarrow> exn + unit \<Rightarrow> 'w repo_tab \<Rightarrow> (exn + unit) \<times> 'w repo_tab" where
  "sync_finally tk r s =
     (case in_world tk (s\<lparr>syncing := False\<rparr>) of
        (Some e, s1) \<Rightarrow> (Inl e, s1)
      | (None, s1) \<Rightarrow>
          (case in_world tk s1 of
             (Some e, s2) \<Rightarrow> (Inl e, s2)
           | (None, s2) \<Rightarrow> (r, s2\<lparr>lock := False\<rparr>)))"

definition sync ::
  "'w tk_after \<Rightarrow> 'w subprocess \<Rightarrow> 'w repo_tab \<Rightarrow> (exn + unit) \<times> 'w repo_tab" where
  "sync tk sp s =
     (if lock s then (Inr (), s)
      else
        (case in_world tk (s\<lparr>lock := True, syncing := True\<rparr>) of
           (Some e, s1) \<Rightarrow> sync_finally tk (Inl e) s1
         | (None, s1) \<Rightarrow>
             (case do_sync sp s1 of
                (r, s2) \<Rightarrow> sync_finally tk r s2)))"

text \<open>\<^verbatim>\<open>_do_merge_impl\<close>, lines 275--311.\<close>

fun merge_branches :: "'w subprocess \<Rightarrow> string list \<Rightarrow> 'w repo_tab \<Rightarrow> bool \<times> 'w repo_tab" where
  "merge_branches sp [] s = (True, s)"
| "merge_branches sp (branch # rest) s =
     (case in_world (run_git sp [git s, ''merge'', remote s @ ''/'' @ branch, ''-m'',
                                 ''Merge '' @ branch] (repo_path s)) s of
        ((code, out, err), s1) \<Rightarrow>
          if code \<noteq> 0 then
            (let s2 = s1\<lparr>state_label := Label_ERROR_Merge_failed,
                         info_label := Info_Merge_of_failed branch\<rparr>
             in case in_world (run_git sp [git s2, ''merge'', ''--abort''] (repo_path s2)) s2 of
                  (r, s3) \<Rightarrow> (False, stop_polling s3))
          else merge_branches sp rest s1)"

definition do_merge_impl :: "'w subprocess \<Rightarrow> 'w repo_tab \<Rightarrow> (exn + unit) \<times> 'w repo_tab" where
  "do_merge_impl sp s =
     (if pending_branches s = [] then (Inr (), s)
      else
        (let s1 = s\<lparr>state_label := Label_Merging, merge_button := False\<rparr>;
             branches = pending_branches s1
         in case merge_branches sp branches s1 of
              (False, s2) \<Rightarrow> (Inr (), s2)
            | (True, s2) \<Rightarrow>
                (case push_main_and_branches sp s2 of
                   (Inl e, s3) \<Rightarrow> (Inl e, s3)
                 | (Inr False, s3) \<Rightarrow> (Inr (), s3)
                 | (Inr True, s3) \<Rightarrow>
                     (Inr (), s3\<lparr>pending_branches := [],
                                 last_commit_count := Map.empty,
                                 state_label := Label_Merge_OK,
                                 info_label := Info_Merged_branches (length branches)\<rparr>))))"

text \<open>\<^verbatim>\<open>_do_merge\<close>, lines 266--273.\<close>

definition do_merge :: "'w subprocess \<Rightarrow> 'w repo_tab \<Rightarrow> (exn + unit) \<times> 'w repo_tab" where
  "do_merge sp s =
     (if lock s then (Inr (), s)
      else
        (case do_merge_impl sp (s\<lparr>lock := True\<rparr>) of
           (r, s1) \<Rightarrow> (r, s1\<lparr>lock := False\<rparr>)))"

text \<open>\<^verbatim>\<open>manual_merge\<close>, lines 262--264: the worker it starts runs \<^verbatim>\<open>_do_merge\<close>.\<close>

definition manual_merge :: "'w subprocess \<Rightarrow> 'w repo_tab \<Rightarrow> (exn + unit) \<times> 'w repo_tab" where
  "manual_merge sp s = do_merge sp s"

text \<open>\<^verbatim>\<open>manual_sync\<close>, lines 313--317: the worker it starts runs \<^verbatim>\<open>sync\<close>.\<close>

definition manual_sync ::
  "'w tk_after \<Rightarrow> 'w subprocess \<Rightarrow> 'w repo_tab \<Rightarrow> (exn + unit) \<times> 'w repo_tab" where
  "manual_sync tk sp s = (if \<not> git_healthy s then (Inr (), s) else sync tk sp s)"

text \<open>
  \<^verbatim>\<open>polling_loop\<close>, polling.py lines 120--142, with a bound on the number of iterations.
  The loop calls \<^verbatim>\<open>sync\<close> outside any handler, so an exception of \<^verbatim>\<open>sync\<close> ends the
  loop and the thread.  The result is \<open>Inr True\<close> when the loop has exited and
  \<open>Inr False\<close> when the bound was reached with the loop still running.  The wait returns
  whether the stop event is set.
\<close>

fun polling_loop ::
  "'w tk_after \<Rightarrow> 'w subprocess \<Rightarrow> nat \<Rightarrow> 'w repo_tab \<Rightarrow> (exn + bool) \<times> 'w repo_tab" where
  "polling_loop tk sp 0 s = (Inr (stop_event s), s)"
| "polling_loop tk sp (Suc n) s =
     (if stop_event s then (Inr True, s)
      else
        (case sync tk sp s of
           (Inl e, s1) \<Rightarrow> (Inl e, s1)
         | (Inr u, s1) \<Rightarrow>
             if stop_event s1 then (Inr True, s1) else polling_loop tk sp n s1))"

text \<open>
  \<^verbatim>\<open>toggle_polling\<close>, polling.py lines 144--170, as far as the session's fields go: the
  operator's stop clears the polling flag and sets the stop event, the start sets the flag,
  clears the event and starts a thread that runs \<^verbatim>\<open>polling_loop\<close>.
\<close>

definition toggle_polling :: "'w repo_tab \<Rightarrow> 'w repo_tab" where
  "toggle_polling s =
     (if \<not> git_healthy s then s
      else if polling s then s\<lparr>polling := False, stop_event := True\<rparr>
      else s\<lparr>polling := True, stop_event := False\<rparr>)"

section \<open>Example sessions and environments\<close>

text \<open>
  Concrete worlds on which the functions above are evaluated.  \<open>table_env\<close> answers each
  command from a table and fails every other command with exit code 1; \<open>example_tab\<close>
  is a session on the repository \<^verbatim>\<open>/repo\<close> with remote \<^verbatim>\<open>origin\<close>, main branch
  \<^verbatim>\<open>main\<close> and branch prefix \<^verbatim>\<open>feature/\<close>, polling, with the lock free.
\<close>

definition table_env :: "(string list \<times> proc_outcome) list \<Rightarrow> 'w subprocess" where
  "table_env tbl cmd cwd t w =
     ((case map_of tbl cmd of Some out \<Rightarrow> out | None \<Rightarrow> Completed 1 [] ''unknown command''), w)"

definition example_tab :: "settings \<Rightarrow> 'w \<Rightarrow> 'w repo_tab" where
  "example_tab st w =
     \<lparr>repo_path = ''/repo'', git = ''git'', remote = ''origin'', main = ''main'',
      prefix = ''feature/'', lock = False, polling = True, stop_event = False,
      last_commit_count = Map.empty, pending_branches = [], git_healthy = True,
      git_error = [], syncing = False, state_label = Label_Idle, info_label = Info_other [],
      merge_button = False, new_commit_alerts = 0, settings_file = st, world = w\<rparr>"

definition all_enabled :: settings where
  "all_enabled = \<lparr>branch_update_enabled = [], sync_new_branches_by_default = True\<rparr>"

definition env_ahead_fails :: "'w subprocess" where
  "env_ahead_fails = table_env
     [([''git'', ''fetch'', ''origin''], Completed 0 [] []),
      ([''git'', ''rev-list'', ''--count'', ''origin/main..main''], Completed 0 ''0'' []),
      ([''git'', ''for-each-ref'', ''--format=%(refname:short)'', ''refs/remotes/origin/feature/''],
         Completed 0 ''origin/feature/x'' []),
      ([''git'', ''rev-list'', ''--count'', ''origin/main..origin/feature/x''],
         Completed 128 [] ''fatal: bad revision'')]"

text \<open>An environment that also records the commands it is given, in order.\<close>

definition traced :: "'w subprocess \<Rightarrow> ('w \<times> string list list) subprocess" where
  "traced sp cmd cwd t = (\<lambda>(w, tr). case sp cmd cwd t w of (out, w') \<Rightarrow> (out, (w', tr @ [cmd])))"

text \<open>A repository without tracked branches whose dry-run fetch times out while the
  fetch itself succeeds, and the session after a health check in it.\<close>

definition env_unhealthy :: "'w subprocess" where
  "env_unhealthy = table_env
     [([''git'', ''rev-parse'', ''--git-dir''], Completed 0 ''.git'' []),
      ([''git'', ''remote''], Completed 0 ''origin'' []),
      ([''git'', ''fetch'', ''origin'', ''--dry-run''], TimeoutExpired),
      ([''git'', ''fetch'', ''origin''], Completed 0 [] []),
      ([''git'', ''rev-list'', ''--count'', ''origin/main..main''], Completed 0 ''0'' []),
      ([''git'', ''for-each-ref'', ''--format=%(refname:short)'', ''refs/remotes/origin/feature/''],
         Completed 0 [] [])]"

definition unhealthy_tab :: "(unit \<times> string list list) repo_tab" where
  "unhealthy_tab = snd (check_and_update_health (traced env_unhealthy) (example_tab all_enabled ((), [])))"



text \<open>One tracked branch three commits ahead of main and not behind; the pull and every
  push work.\<close>

definition env_one_ahead :: "'w subprocess" where
  "env_one_ahead = table_env
     [([''git'', ''fetch'', ''origin''], Completed 0 [] []),
      ([''git'', ''rev-list'', ''--count'', ''origin/main..main''], Completed 0 ''0'' []),
      ([''git'', ''for-each-ref'', ''--format=%(refname:short)'', ''refs/remotes/origin/feature/''],
         Completed 0 ''origin/feature/x'' []),
      ([''git'', ''rev-list'', ''--count'', ''origin/main..origin/feature/x''], Completed 0 ''3'' []),
      ([''git'', ''rev-list'', ''--count'', ''origin/feature/x..origin/main''], Completed 0 ''0'' []),
      ([''git'', ''pull'', ''--ff-only'', ''origin'', ''feature/x''], Completed 0 [] []),
      ([''git'', ''push'', ''origin'', ''main''], Completed 0 [] []),
      ([''git'', ''push'', ''origin'', ''main:feature/x''], Completed 0 [] [])]"

text \<open>The same, with a pull that cannot fast-forward.\<close>

definition env_pull_fails :: "'w subprocess" where
  "env_pull_fails = table_env
     [([''git'', ''fetch'', ''origin''], Completed 0 [] []),
      ([''git'', ''rev-list'', ''--count'', ''origin/main..main''], Completed 0 ''0'' []),
      ([''git'', ''for-each-ref'', ''--format=%(refname:short)'', ''refs/remotes/origin/feature/''],
         Completed 0 ''origin/feature/x'' []),
      ([''git'', ''rev-list'', ''--count'', ''origin/main..origin/feature/x''], Completed 0 ''3'' []),
      ([''git'', ''rev-list'', ''--count'', ''origin/feature/x..origin/main''], Completed 0 ''0'' []),
      ([''git'', ''pull'', ''--ff-only'', ''origin'', ''feature/x''],
         Completed 128 [] ''fatal: Not possible to fast-forward, aborting.'')]"

text \<open>Two tracked branches ahead of main and not behind, touching different files; no
  merge is possible in this world.\<close>

definition env_two_ahead_disjoint :: "'w subprocess" where
  "env_two_ahead_disjoint = table_env
     [([''git'', ''fetch'', ''origin''], Completed 0 [] []),
      ([''git'', ''rev-list'', ''--count'', ''origin/main..main''], Completed 0 ''0'' []),
      ([''git'', ''for-each-ref'', ''--format=%(refname:short)'', ''refs/remotes/origin/feature/''],
         Completed 0 (''origin/feature/a'' @ [CHR 0x0A] @ ''origin/feature/b'') []),
      ([''git'', ''rev-list'', ''--count'', ''origin/main..origin/feature/a''], Completed 0 ''1'' []),
      ([''git'', ''rev-list'', ''--count'', ''origin/feature/a..origin/main''], Completed 0 ''0'' []),
      ([''git'', ''rev-list'', ''--count'', ''origin/main..origin/feature/b''], Completed 0 ''2'' []),
      ([''git'', ''rev-list'', ''--count'', ''origin/feature/b..origin/main''], Completed 0 ''0'' []),
      ([''git'', ''diff'', ''--name-only'', ''origin/main...origin/feature/a''], Completed 0 ''a.txt'' []),
      ([''git'', ''diff'', ''--name-only'', ''origin/main...origin/feature/b''], Completed 0 ''b.txt'' [])]"

text \<open>The same branches, both touching \<^verbatim>\<open>shared.txt\<close>.\<close>

definition env_two_ahead_shared :: "'w subprocess" where
  "env_two_ahead_shared = table_env
     [([''git'', ''fetch'', ''origin''], Completed 0 [] []),
      ([''git'', ''rev-list'', ''--count'', ''origin/main..main''], Completed 0 ''0'' []),
      ([''git'', ''for-each-ref'', ''--format=%(refname:short)'', ''refs/remotes/origin/feature/''],
         Completed 0 (''origin/feature/a'' @ [CHR 0x0A] @ ''origin/feature/b'') []),
      ([''git'', ''rev-list'', ''--count'', ''origin/main..origin/feature/a''], Completed 0 ''1'' []),
      ([''git'', ''rev-list'', ''--count'', ''origin/feature/a..origin/main''], Completed 0 ''0'' []),
      ([''git'', ''rev-list'', ''--count'', ''origin/main..origin/feature/b''], Completed 0 ''2'' []),
      ([''git'', ''rev-list'', ''--count'', ''origin/feature/b..origin/main''], Completed 0 ''0'' []),
      ([''git'', ''diff'', ''--name-only'', ''origin/main...origin/feature/a''],
         Completed 0 (''a.txt'' @ [CHR 0x0A] @ ''shared.txt'') []),
      ([''git'', ''diff'', ''--name-only'', ''origin/main...origin/feature/b''],
         Completed 0 ''shared.txt'' [])]"

text \<open>Persisted flags for the tracked branch \<^verbatim>\<open>feature/x\<close> and for a branch
  \<^verbatim>\<open>feature/gone\<close> that the remote no longer has.\<close>

definition stale_settings :: settings where
  "stale_settings =
     \<lparr>branch_update_enabled = [(''/repo'', [(''feature/x'', True), (''feature/gone'', True)])],
      sync_new_branches_by_default = False\<rparr>"


text \<open>A toolkit that accepts every \<^verbatim>\<open>after\<close> call, and one whose main loop is not
  running.\<close>

definition after_ok :: "'w tk_after" where
  "after_ok w = (None, w)"

definition after_refused :: "'w tk_after" where
  "after_refused w = (Some (RuntimeError ''main thread is not in main loop''), w)"

text \<open>A toolkit whose main loop stops during the cycle: the world is the number of
  \<^verbatim>\<open>after\<close> calls it still accepts.\<close>

fun after_while :: "nat tk_after" where
  "after_while 0 = (Some (RuntimeError ''main thread is not in main loop''), 0)"
| "after_while (Suc n) = (None, n)"

section \<open>Notions used in the statements\<close>

text \<open>\<open>issued_only P tr0 tr\<close>: the recorded commands \<open>tr\<close> are \<open>tr0\<close> followed by
  commands that satisfy \<open>P\<close>.\<close>

definition issued_only :: "(string list \<Rightarrow> bool) \<Rightarrow> string list list \<Rightarrow> string list list \<Rightarrow> bool" where
  "issued_only P tr0 tr \<longleftrightarrow> (\<exists>cs. tr = tr0 @ cs \<and> list_all P cs)"

text \<open>The commands of \<^verbatim>\<open>check_git_health\<close>, and the shapes of the commands that a sync
  cycle gives to git.\<close>

definition health_command :: "string \<Rightarrow> string \<Rightarrow> string list \<Rightarrow> bool" where
  "health_command g r cmd \<longleftrightarrow>
     cmd = [g, ''rev-parse'', ''--git-dir''] \<or> cmd = [g, ''remote'']
     \<or> cmd = [g, ''fetch'', r, ''--dry-run'']"

definition cycle_command :: "string \<Rightarrow> string \<Rightarrow> string list \<Rightarrow> bool" where
  "cycle_command g r cmd \<longleftrightarrow>
     (\<exists>verb args. cmd = g # verb # args
        \<and> (verb = ''fetch'' \<and> args = [r]
           \<or> verb = ''rev-list'' \<or> verb = ''for-each-ref'' \<or> verb = ''diff''
           \<or> verb = ''push'' \<or> verb = ''pull''))"

text \<open>\<open>only_pruned path st st'\<close>: the settings \<open>st'\<close> are \<open>st\<close> with some flags of the
  repository \<open>path\<close> removed and nothing else changed.\<close>

definition only_pruned :: "string \<Rightarrow> settings \<Rightarrow> settings \<Rightarrow> bool" where
  "only_pruned path st st' \<longleftrightarrow>
     sync_new_branches_by_default st' = sync_new_branches_by_default st
     \<and> (\<forall>p. p \<noteq> path \<longrightarrow> branch_states st' p = branch_states st p)
     \<and> (\<forall>name v. map_of (branch_states st' path) name = Some v
          \<longrightarrow> map_of (branch_states st path) name = Some v)"

section \<open>Properties\<close>

subsection \<open>Auxiliary facts\<close>

lemma in_world_eq: "in_world f s = (fst (f (world s)), s\<lparr>world := snd (f (world s))\<rparr>)"
  by (simp add: in_world_def split: prod.split)



text \<open>The nested iteration of \<^verbatim>\<open>are_files_disjoint\<close> compares every pair of positions.\<close>

lemma disjoint_from_rest_iff: "disjoint_from_rest f gs \<longleftrightarrow> (\<forall>g \<in> set gs. f \<inter> g = {})"
  by (induction gs) auto

lemma pairwise_disjoint_sorted_wrt:
  "pairwise_disjoint fs \<longleftrightarrow> sorted_wrt (\<lambda>a b. a \<inter> b = {}) fs"
  by (induction fs) (auto simp: disjoint_from_rest_iff)

lemma pairwise_disjoint_iff:
  "pairwise_disjoint fs \<longleftrightarrow> (\<forall>i j. i < j \<and> j < length fs \<longrightarrow> fs ! i \<inter> fs ! j = {})"
  by (auto simp: pairwise_disjoint_sorted_wrt sorted_wrt_iff_nth_less)

lemma collect_changed_files_length:
  "collect_changed_files sp bs main_ref r cwd g w = (fs, w') \<Longrightarrow> length fs = length bs"
  by (induction bs arbitrary: w fs w') (auto split: prod.splits)

text \<open>Each loop of the cycle and of the merge leaves the pending branches and the
  persisted settings alone.\<close>

lemma push_branches_frame:
  "push_branches sp st bs s = (ok, s') \<Longrightarrow>
     pending_branches s' = pending_branches s \<and> settings_file s' = settings_file s"
proof (induction bs arbitrary: s)
  case Nil
  then show ?case by simp
next
  case (Cons b bs)
  then show ?case
    by (fastforce simp: Let_def in_world_eq stop_polling_def split: if_splits prod.splits)
qed

lemma push_main_and_branches_frame:
  "push_main_and_branches sp s = (r, s') \<Longrightarrow>
     pending_branches s' = pending_branches s \<and> settings_file s' = settings_file s"
  by (fastforce simp: push_main_and_branches_def in_world_eq stop_polling_def
           split: if_splits prod.splits sum.splits dest: push_branches_frame)

lemma classify_frame:
  "classify sp bs a d n s = (r, s') \<Longrightarrow>
     pending_branches s' = pending_branches s \<and> settings_file s' = settings_file s"
proof (induction bs arbitrary: a d n s)
  case Nil
  then show ?case by simp
next
  case (Cons b bs)
  then show ?case
    by (fastforce simp: Let_def in_world_eq split: if_splits prod.splits sum.splits)
qed

lemma behind_scan_frame:
  "behind_scan sp bs acc s = (r, s') \<Longrightarrow>
     pending_branches s' = pending_branches s \<and> settings_file s' = settings_file s"
proof (induction bs arbitrary: acc s)
  case Nil
  then show ?case by simp
next
  case (Cons b bs)
  then show ?case
    by (fastforce simp: in_world_eq split: if_splits prod.splits sum.splits)
qed

lemma push_behind_frame:
  "push_behind sp bs s = (ok, s') \<Longrightarrow>
     pending_branches s' = pending_branches s \<and> settings_file s' = settings_file s"
proof (induction bs arbitrary: s)
  case Nil
  then show ?case by simp
next
  case (Cons b bs)
  then show ?case
    by (cases b) (fastforce simp: in_world_eq stop_polling_def split: if_splits prod.splits)
qed







lemma push_branches_True_label:
  "push_branches sp st bs s = (True, s') \<Longrightarrow> state_label s' = state_label s"
proof (induction bs arbitrary: s)
  case Nil
  then show ?case by simp
next
  case (Cons b bs)
  then show ?case
    by (fastforce simp: Let_def in_world_eq stop_polling_def split: if_splits prod.splits)
qed





text \<open>What the pruning of lines 78--89 does to the persisted settings, and that nothing
  else in a cycle writes them.\<close>

lemma map_of_update_states:
  "map_of (map (\<lambda>(path, states). if path = rp then (path, f states) else (path, states)) xs) q
     = (if q = rp then map_option f (map_of xs q) else map_of xs q)"
  by (induction xs) auto

lemma map_of_filter_names:
  "map_of (filter (\<lambda>(name, v). name \<in> E) xs) k = (if k \<in> E then map_of xs k else None)"
  by (induction xs) auto

lemma filter_names_all:
  "\<not> list_ex (\<lambda>k. k \<notin> E) (map fst xs) \<Longrightarrow> filter (\<lambda>(name, v). name \<in> E) xs = xs"
  by (induction xs) auto

lemma prune_branch_states_spec:
  "branch_states (settings_file (prune_branch_states (settings_file s) bs s)) q
     = (if q = repo_path s
        then filter (\<lambda>(name, v). name \<in> set (map (short_name s) bs))
               (branch_states (settings_file s) q)
        else branch_states (settings_file s) q)
   \<and> sync_new_branches_by_default (settings_file (prune_branch_states (settings_file s) bs s))
       = sync_new_branches_by_default (settings_file s)"
  by (auto simp: prune_branch_states_def save_global_settings_def branch_states_def Let_def
                 map_of_update_states filter_names_all
           split: option.splits)

lemma prune_branch_states_cong:
  "repo_path s' = repo_path s \<Longrightarrow> remote s' = remote s \<Longrightarrow> settings_file s' = settings_file s \<Longrightarrow>
     settings_file (prune_branch_states st bs s') = settings_file (prune_branch_states st bs s)"
  by (simp add: prune_branch_states_def save_global_settings_def short_name_def Let_def
           split: option.splits)

lemma do_sync_decide_settings:
  "do_sync_decide sp bs a d s = (r, s') \<Longrightarrow> settings_file s' = settings_file s"
  by (auto simp: do_sync_decide_def in_world_eq Let_def stop_polling_def
           split: if_splits prod.splits sum.splits bool.splits list.splits
           dest!: push_main_and_branches_frame behind_scan_frame push_behind_frame)

lemma do_sync_scan_settings:
  "do_sync_scan sp s = (r, s') \<Longrightarrow>
     settings_file s' = settings_file s
     \<or> (\<exists>bs. settings_file s' = settings_file (prune_branch_states (settings_file s) bs s))"
proof -
  assume a: "do_sync_scan sp s = (r, s')"
  have c: "\<And>bs w. settings_file (prune_branch_states (settings_file s) bs
              (s\<lparr>state_label := Label_Sync, merge_button := False, pending_branches := [],
                 world := w\<rparr>))
            = settings_file (prune_branch_states (settings_file s) bs s)"
    by (rule prune_branch_states_cong) simp_all
  show ?thesis
    using a
    by (auto simp: do_sync_scan_def in_world_eq Let_def stop_polling_def
                   load_global_settings_def c
             split: if_splits prod.splits sum.splits bool.splits
             dest!: push_main_and_branches_frame classify_frame)
qed

lemma do_sync_settings:
  "do_sync sp s = (r, s') \<Longrightarrow>
     settings_file s' = settings_file s
     \<or> (\<exists>bs. settings_file s' = settings_file (prune_branch_states (settings_file s) bs s))"
  by (auto simp: do_sync_def split: prod.splits sum.splits scan_result.splits
           dest!: do_sync_scan_settings do_sync_decide_settings)

lemma do_sync_scan_prunes:
  assumes "run_git sp [git s, ''fetch'', remote s] (repo_path s) (world s) = ((0, out, err), w1)"
    and "local_main_ahead sp (remote s) (main s) (repo_path s) (git s) w1 = (n, w2)"
    and "n \<le> 0"
    and "get_tracked_branches sp (remote s) (prefix s) (repo_path s) (git s) w2
           = (Inr all_branches, w3)"
  shows "settings_file (snd (do_sync_scan sp s))
           = settings_file (prune_branch_states (settings_file s) all_branches s)"
proof -
  have c: "\<And>bs w. settings_file (prune_branch_states (settings_file s) bs
              (s\<lparr>state_label := Label_Sync, merge_button := False, pending_branches := [],
                 world := w\<rparr>))
            = settings_file (prune_branch_states (settings_file s) bs s)"
    by (rule prune_branch_states_cong) simp_all
  show ?thesis
    using assms
    by (auto simp: do_sync_scan_def in_world_eq Let_def load_global_settings_def c
             split: prod.splits sum.splits
             dest!: classify_frame)
qed

lemma do_sync_decide_settings_snd:
  "settings_file (snd (do_sync_decide sp bs a d s)) = settings_file s"
  by (metis do_sync_decide_settings prod.collapse)

lemma do_sync_settings_scan:
  "settings_file (snd (do_sync sp s)) = settings_file (snd (do_sync_scan sp s))"
  by (simp add: do_sync_def do_sync_decide_settings_snd
           split: prod.splits sum.splits scan_result.splits)





subsection \<open>The claims\<close>

text \<open>
  C8.  The process runner never raises: \<^verbatim>\<open>run_git\<close> returns a triple for every command,
  working directory and outcome of the subprocess.  A completed process is returned with
  its exit code, zero or not, and its stripped output; a timeout and a missing executable
  become the result with exit code 1 and the message \<^verbatim>\<open>Timeout\<close> or
  \<^verbatim>\<open>Command not found: ...\<close>; any other exception becomes exit code 1 with its message.
  Every invocation passes the timeout of 30 seconds to the subprocess.
\<close>

theorem run_git_never_raises:
  "(case fst (sp (c # cs) cwd 30 w) of
      Completed rc out err \<Rightarrow> fst (run_git sp (c # cs) cwd w) = (rc, strip out, strip err)
    | TimeoutExpired \<Rightarrow> fst (run_git sp (c # cs) cwd w) = (1, [], ''Timeout'')
    | FileNotFoundError \<Rightarrow> fst (run_git sp (c # cs) cwd w) = (1, [], ''Command not found: '' @ c)
    | OtherException m \<Rightarrow> fst (run_git sp (c # cs) cwd w) = (1, [], m))
   \<and> snd (run_git sp (c # cs) cwd w) = snd (sp (c # cs) cwd 30 w)
   \<and> run_git sp [] cwd w = ((1, [], ''list index out of range''), w)"
  by (simp add: run_git_def split: prod.split proc_outcome.split)

text \<open>
  C9.  A behind count whose command exits non-zero is 0, the changed files of a diff that
  exits non-zero are the empty set, and a local-main-ahead count whose ahead count raises
  is 0.  None of the three functions has an exceptional result in these cases, so the
  enclosing cycle goes on.
\<close>

theorem tolerated_failures_default:
  "(fst (fst (run_git sp [g, ''rev-list'', ''--count'', tip @ ''..'' @ base] cwd w)) \<noteq> 0
      \<longrightarrow> fst (commits_behind sp base tip cwd g w) = Inr 0)
   \<and> (fst (fst (run_git sp [g, ''diff'', ''--name-only'', base @ ''...'' @ tip] cwd w)) \<noteq> 0
      \<longrightarrow> fst (get_changed_files sp base tip cwd g w) = {})
   \<and> (\<forall>e. fst (commits_ahead sp (r @ ''/'' @ m) m cwd g w) = Inl e
      \<longrightarrow> fst (local_main_ahead sp r m cwd g w) = 0)"
  by (auto simp: commits_behind_def get_changed_files_def local_main_ahead_def
           split: prod.splits sum.splits)

theorem tolerated_failures_default_witness:
  "fst (fst (run_git (table_env []) [''git'', ''rev-list'', ''--count'', ''origin/feature/x'' @ ''..'' @ ''origin/main''] ''/repo'' ())) \<noteq> 0
   \<and> fst (commits_behind (table_env []) ''origin/main'' ''origin/feature/x'' ''/repo'' ''git'' ()) = Inr 0
   \<and> fst (fst (run_git (table_env []) [''git'', ''diff'', ''--name-only'', ''origin/main'' @ ''...'' @ ''origin/feature/x''] ''/repo'' ())) \<noteq> 0
   \<and> fst (get_changed_files (table_env []) ''origin/main'' ''origin/feature/x'' ''/repo'' ''git'' ()) = {}
   \<and> fst (commits_ahead (table_env []) (''origin'' @ ''/'' @ ''main'') ''main'' ''/repo'' ''git'' ()) = Inl (RuntimeError ''unknown command'')
   \<and> fst (local_main_ahead (table_env []) ''origin'' ''main'' ''/repo'' ''git'' ()) = 0"
  using tolerated_failures_default [of "table_env []" "''git''" "''origin/feature/x''" "''origin/main''" "''/repo''" "()" "''origin''" "''main''"]
  by (simp add: run_git_def table_env_def commits_ahead_def strip_def py_whitespace_def)

text \<open>
  C1.  The claim that a failing ahead count ends the cycle in the error state with the
  scheduler stopped and without an exception leaving the worker does not hold of
  \<^verbatim>\<open>_do_sync\<close>: on a repository whose only enabled branch makes \<^verbatim>\<open>rev-list\<close> exit with
  128, \<^verbatim>\<open>sync\<close> raises the \<^verbatim>\<open>RuntimeError\<close> of \<^verbatim>\<open>commits_ahead\<close>, the state label is
  still \<^verbatim>\<open>Sync...\<close>, the polling flag is still set, and the polling loop ends with the
  exception.
\<close>

theorem ahead_count_failure_escapes:
  "fst (sync after_ok env_ahead_fails (example_tab all_enabled ())) = Inl (RuntimeError ''fatal: bad revision'')
   \<and> state_label (snd (sync after_ok env_ahead_fails (example_tab all_enabled ()))) = Label_Sync
   \<and> polling (snd (sync after_ok env_ahead_fails (example_tab all_enabled ())))
   \<and> fst (polling_loop after_ok env_ahead_fails (Suc 0) (example_tab all_enabled ())) = Inl (RuntimeError ''fatal: bad revision'')"
  by code_simp




text \<open>
  C10.  The claim that the entry point \<^verbatim>\<open>sync\<close> releases the lock on every exit path
  does not hold of the exit through a \<^verbatim>\<open>self.after\<close> call that raises: the \<^verbatim>\<open>finally\<close>
  block makes two such calls before \<^verbatim>\<open>self.lock.release()\<close>, while \<^verbatim>\<open>_do_merge\<close>
  releases first thing.  With a toolkit whose main loop stops during the cycle, the cycle
  runs to \<^verbatim>\<open>STOP - Merge possible\<close>, the call in the \<^verbatim>\<open>finally\<close> block raises, the
  exception leaves \<^verbatim>\<open>sync\<close> and the lock is still held; a merge and a sync attempted
  afterwards find the lock taken and do nothing.
\<close>

theorem after_refused_keeps_lock:
  "\<not> lock (example_tab all_enabled (1::nat))
   \<and> fst (sync after_while env_two_ahead_disjoint (example_tab all_enabled 1))
       = Inl (RuntimeError ''main thread is not in main loop'')
   \<and> state_label (snd (sync after_while env_two_ahead_disjoint (example_tab all_enabled 1)))
       = Label_STOP_Merge_possible
   \<and> lock (snd (sync after_while env_two_ahead_disjoint (example_tab all_enabled 1)))
   \<and> fst (do_merge env_two_ahead_disjoint
            (snd (sync after_while env_two_ahead_disjoint (example_tab all_enabled 1)))) = Inr ()
   \<and> state_label (snd (do_merge env_two_ahead_disjoint
            (snd (sync after_while env_two_ahead_disjoint (example_tab all_enabled 1)))))
       = Label_STOP_Merge_possible
   \<and> lock (snd (do_merge env_two_ahead_disjoint
            (snd (sync after_while env_two_ahead_disjoint (example_tab all_enabled 1)))))
   \<and> state_label (snd (sync after_ok env_ahead_fails
            (snd (sync after_while env_two_ahead_disjoint (example_tab all_enabled 1)))))
       = Label_STOP_Merge_possible
   \<and> lock (snd (sync after_ok env_ahead_fails
            (snd (sync after_while env_two_ahead_disjoint (example_tab all_enabled 1)))))"
  by code_simp

text \<open>
  C4.  The claim that a cycle with a diverged branch, or with several branches ahead,
  stops the scheduler does not hold of the polling loop: the cycle records the pending
  branches, ends in \<^verbatim>\<open>STOP - Merge possible\<close> and calls \<^verbatim>\<open>stop_polling\<close>, which clears
  the polling flag and leaves the stop event unset, and the stop event is what the loop
  tests.  With two branches ahead on disjoint files, a cycle gives git nine commands;
  the loop is still running after two iterations and has given git eighteen.  The
  operator's stop, \<^verbatim>\<open>toggle_polling\<close>, sets the event.
\<close>

theorem stop_state_leaves_loop_running:
  "state_label (snd (sync after_ok (traced env_two_ahead_disjoint) (example_tab all_enabled ((), []))))
     = Label_STOP_Merge_possible
   \<and> pending_branches (snd (sync after_ok (traced env_two_ahead_disjoint) (example_tab all_enabled ((), []))))
     = [''feature/a'', ''feature/b'']
   \<and> \<not> polling (snd (sync after_ok (traced env_two_ahead_disjoint) (example_tab all_enabled ((), []))))
   \<and> \<not> stop_event (snd (sync after_ok (traced env_two_ahead_disjoint) (example_tab all_enabled ((), []))))
   \<and> length (snd (world (snd (sync after_ok (traced env_two_ahead_disjoint)
                                  (example_tab all_enabled ((), [])))))) = 9
   \<and> fst (polling_loop after_ok (traced env_two_ahead_disjoint) 2 (example_tab all_enabled ((), [])))
     = Inr False
   \<and> length (snd (world (snd (polling_loop after_ok (traced env_two_ahead_disjoint) 2
                                  (example_tab all_enabled ((), [])))))) = 18
   \<and> stop_event (toggle_polling (example_tab all_enabled ((), [])))"
  by code_simp

text \<open>
  C6.  The claim that a failed pull of the only branch ahead ends the cycle in the error
  state with the scheduler stopped does not hold of the polling loop: the cycle ends in
  \<^verbatim>\<open>ERROR\<close> and calls \<^verbatim>\<open>stop_polling\<close>, which clears the polling flag and leaves the
  stop event unset.  With one branch three commits ahead and a pull that cannot
  fast-forward, a cycle gives git six commands; the loop is still running after two
  iterations and has given git twelve.
\<close>

theorem pull_failure_leaves_loop_running:
  "fst (do_sync_scan (traced env_pull_fails) (example_tab all_enabled ((), [])))
     = Inr (Classified [''origin/feature/x''] [(''feature/x'', 3)] [])
   \<and> state_label (snd (sync after_ok (traced env_pull_fails) (example_tab all_enabled ((), []))))
     = Label_ERROR
   \<and> \<not> polling (snd (sync after_ok (traced env_pull_fails) (example_tab all_enabled ((), []))))
   \<and> \<not> stop_event (snd (sync after_ok (traced env_pull_fails) (example_tab all_enabled ((), []))))
   \<and> length (snd (world (snd (sync after_ok (traced env_pull_fails)
                                  (example_tab all_enabled ((), [])))))) = 6
   \<and> fst (polling_loop after_ok (traced env_pull_fails) 2 (example_tab all_enabled ((), [])))
     = Inr False
   \<and> length (snd (world (snd (polling_loop after_ok (traced env_pull_fails) 2
                                  (example_tab all_enabled ((), [])))))) = 12"
  by code_simp




end
